theory Spec2Isabelle
  imports Complex_Main
begin

section \<open>The surfinBH3dq8 fit evaluator (\<open>surfinBH/_fit_evaluators/fit_3dq8.py\<close>)\<close>

text \<open>
  The class \<open>Fit3dq8\<close> maps the physical parameters of a non-precessing binary
  (mass ratio \<open>q\<close>, spins \<open>chiA\<close>, \<open>chiB\<close>) to the coordinates of a set of scalar fits,
  checks the parameters against the training and extrapolation limits, and assembles the
  scalar fit values into the remnant mass, spin and kick.

  Conventions of the embedding.
  \<^item> The floats the validator and the dispatcher handle are modelled as \<^typ>\<open>real\<close>:
    they are only compared with the thresholds \<open>1e-10\<close>, \<open>8.01\<close>, \<open>10.01\<close>,
    \<open>0.81\<close>, \<open>1.\<close>, taken as the rationals they denote, and passed on unchanged.
    The arithmetic of \<open>_get_fit_params\<close>, whose result depends on the rounding of every
    double-precision operation, on the platform's logarithm and on float overflow, is not
    part of this development.
  \<^item> A one-dimensional numpy array is a \<^typ>\<open>real list\<close>; reading past its end is
    \<open>IndexError\<close>.
  \<^item> \<open>raise\<close> is the left injection of a sum; the exception keeps the class and the
    message of the source, which tell the checks apart.
  \<^item> \<open>warnings.warn\<close> appends its message to the list of warnings emitted by the call.
  \<^item> The scalar fit evaluator \<open>_evaluate_fits\<close> belongs to the base class and is a
    parameter; each call of it is recorded, with its arguments, in a call log.
\<close>

subsection \<open>Values and errors\<close>

datatype error =
    ValueError string
  | Exception string
  | IndexError
  | UnboundLocalError
  | UnsupportedOption "string list"

datatype pyval =
    PyNone
  | Float real
  | Array "real list"
  | Tuple "pyval list"

type_synonym kwargs = "(string \<times> pyval) list"

text \<open>Indexing \<open>a[i]\<close> of a one-dimensional array with a non-negative index.\<close>

definition getitem :: "real list \<Rightarrow> nat \<Rightarrow> error + real" where
  "getitem a i = (if i < length a then Inr (a ! i) else Inl IndexError)"

subsection \<open>\<open>_check_param_limits\<close>\<close>

text \<open>
  \<^verbatim>\<open>
  if np.sqrt(np.sum(chiA[:2]**2)) > 1e-10:
      raise ValueError('The x and y components of chiA should be zero.')
  if np.sqrt(np.sum(chiB[:2]**2)) > 1e-10:
      raise ValueError('The x and y components of chiB should be zero.')
  if q < 1:
      raise ValueError('Mass ratio should be >= 1.')
  elif q > 10.01:
      raise Exception('Mass ratio outside allowed range.')
  elif q > 8.01:
      warnings.warn('Mass ratio outside training range.')
  if abs(chiA[2]) > 1.:
      raise Exception('Spin magnitude of BhA outside allowed range.')
  elif abs(chiA[2]) > 0.81:
      warnings.warn('Spin magnitude of BhA outside training range.')
  if abs(chiB[2]) > 1.:
      raise Exception('Spin magnitude of BhB outside allowed range.')
  elif abs(chiB[2]) > 0.81:
      warnings.warn('Spin magnitude of BhB outside training range.')
  \<close>
  The result is the list of warnings emitted, in order, and either the exception raised
  or the normal return. The keyword arguments are accepted and not looked at.
\<close>

definition check_param_limits ::
  "real \<Rightarrow> real list \<Rightarrow> real list \<Rightarrow> kwargs \<Rightarrow> string list \<times> (error + unit)" where
  "check_param_limits q chiA chiB kw =
     (if sqrt (sum_list (map (\<lambda>c. c ^ 2) (take 2 chiA))) > 1 / 10 ^ 10 then
        ([], Inl (ValueError ''The x and y components of chiA should be zero.''))
      else if sqrt (sum_list (map (\<lambda>c. c ^ 2) (take 2 chiB))) > 1 / 10 ^ 10 then
        ([], Inl (ValueError ''The x and y components of chiB should be zero.''))
      else if q < 1 then
        ([], Inl (ValueError ''Mass ratio should be >= 1.''))
      else if q > 10.01 then
        ([], Inl (Exception ''Mass ratio outside allowed range.''))
      else
        let w1 = (if q > 8.01 then [''Mass ratio outside training range.''] else []) in
        case getitem chiA 2 of
          Inl e \<Rightarrow> (w1, Inl e)
        | Inr chiAz \<Rightarrow>
            if \<bar>chiAz\<bar> > 1 then
              (w1, Inl (Exception ''Spin magnitude of BhA outside allowed range.''))
            else
              let w2 = w1 @ (if \<bar>chiAz\<bar> > 0.81
                             then [''Spin magnitude of BhA outside training range.'']
                             else []) in
              case getitem chiB 2 of
                Inl e \<Rightarrow> (w2, Inl e)
              | Inr chiBz \<Rightarrow>
                  if \<bar>chiBz\<bar> > 1 then
                    (w2, Inl (Exception ''Spin magnitude of BhB outside allowed range.''))
                  else
                    (w2 @ (if \<bar>chiBz\<bar> > 0.81
                           then [''Spin magnitude of BhB outside training range.'']
                           else []),
                     Inr ()))"

text \<open>The exceptions and warnings of the validator, by the check that produces them.\<close>

abbreviation err_chiA_inplane :: error where
  "err_chiA_inplane \<equiv> ValueError ''The x and y components of chiA should be zero.''"

abbreviation err_chiB_inplane :: error where
  "err_chiB_inplane \<equiv> ValueError ''The x and y components of chiB should be zero.''"

abbreviation err_q_low :: error where
  "err_q_low \<equiv> ValueError ''Mass ratio should be >= 1.''"

abbreviation err_q_high :: error where
  "err_q_high \<equiv> Exception ''Mass ratio outside allowed range.''"

abbreviation err_chiA_spin :: error where
  "err_chiA_spin \<equiv> Exception ''Spin magnitude of BhA outside allowed range.''"

abbreviation err_chiB_spin :: error where
  "err_chiB_spin \<equiv> Exception ''Spin magnitude of BhB outside allowed range.''"

abbreviation warn_q :: string where
  "warn_q \<equiv> ''Mass ratio outside training range.''"

abbreviation warn_chiA :: string where
  "warn_chiA \<equiv> ''Spin magnitude of BhA outside training range.''"

abbreviation warn_chiB :: string where
  "warn_chiB \<equiv> ''Spin magnitude of BhB outside training range.''"

text \<open>The in-plane magnitude \<open>np.sqrt(np.sum(chi[:2]**2))\<close> that the validator compares.\<close>

abbreviation inplane :: "real list \<Rightarrow> real" where
  "inplane chi \<equiv> sqrt (sum_list (map (\<lambda>c. c ^ 2) (take 2 chi)))"

subsection \<open>\<open>_check_unused_kwargs\<close> and \<open>_evaluate_fits\<close> of the base class\<close>

text \<open>
  Modelled from the spec: \<open>_check_unused_kwargs\<close> is a method of the base class
  \<open>surfinBH.SurFinBH\<close>, which is not part of this file. The specification says that
  unknown or unsupported options are rejected ("UnsupportedOption") and that the system
  recognises no evaluation-time option beyond the selector itself: any keyword argument
  left in \<open>kwargs\<close> is an error, which names the offending keys.
\<close>

definition check_unused_kwargs :: "kwargs \<Rightarrow> error + unit" where
  "check_unused_kwargs kw =
     (if kw = [] then Inr () else Inl (UnsupportedOption (map fst kw)))"

text \<open>
  The scalar fit evaluator \<open>self._evaluate_fits(x, key)\<close> returns a value and its
  error estimate. It is a parameter \<open>ev\<close> of the model; a call appends its arguments to
  the call log.
\<close>

type_synonym evaluator = "real list \<Rightarrow> string \<Rightarrow> real \<times> real"

type_synonym call_log = "(real list \<times> string) list"

definition evaluate_fits ::
  "evaluator \<Rightarrow> real list \<Rightarrow> string \<Rightarrow> call_log \<Rightarrow> (real \<times> real) \<times> call_log" where
  "evaluate_fits ev x fit_key cl = (ev x fit_key, cl @ [(x, fit_key)])"

subsection \<open>\<open>_eval_wrapper\<close>\<close>

text \<open>
  \<^verbatim>\<open>
  chiA = np.array(chiA)
  chiB = np.array(chiB)
  self._check_param_limits(q, chiA, chiB, **kwargs)
  self._check_unused_kwargs(kwargs)
  x = [q, chiA[2], chiB[2]]
  if fit_key == 'mC' or fit_key == 'all':
      mC, mC_err = self._evaluate_fits(x, 'mC')
      if fit_key == 'mC':
          return mC, mC_err
  if fit_key == 'chiC' or fit_key == 'all':
      chiCz, chiCz_err = self._evaluate_fits(x, 'chiCz')
      chiC = np.array([0,0,chiCz])
      chiC_err = np.array([0,0,chiCz_err])
      if fit_key == 'chiC':
          return chiC, chiC_err
  if fit_key == 'velC' or fit_key == 'all':
      velCx, velCx_err = self._evaluate_fits(x, 'velCx')
      velCy, velCy_err = self._evaluate_fits(x, 'velCy')
      velC = np.array([velCx, velCy, 0])
      velC_err = np.array([velCx_err, velCy_err, 0])
      if fit_key == 'velC':
          return velC, velC_err
  if fit_key == 'all':
      return mC, chiC, velC, mC_err, chiC_err, velC_err
  \<close>
  The four \<open>if\<close> blocks are four functions, each continuing with the next one. The local
  variables a block may leave unbound are optional values; reading an unbound one is
  \<open>UnboundLocalError\<close>. Falling off the end of the function returns \<open>None\<close>.
\<close>

definition block_all ::
  "string \<Rightarrow> (real \<times> real) option \<Rightarrow> (real list \<times> real list) option
     \<Rightarrow> (real list \<times> real list) option \<Rightarrow> error + pyval" where
  "block_all fit_key m c v =
     (if fit_key = ''all'' then
        (case (m, c, v) of
           (Some (mC, mC_err), Some (chiC, chiC_err), Some (velC, velC_err)) \<Rightarrow>
             Inr (Tuple [Float mC, Array chiC, Array velC,
                         Float mC_err, Array chiC_err, Array velC_err])
         | _ \<Rightarrow> Inl UnboundLocalError)
      else Inr PyNone)"

definition block_velC ::
  "evaluator \<Rightarrow> string \<Rightarrow> real list \<Rightarrow> (real \<times> real) option
     \<Rightarrow> (real list \<times> real list) option \<Rightarrow> call_log \<Rightarrow> call_log \<times> (error + pyval)" where
  "block_velC ev fit_key x m c cl =
     (if fit_key = ''velC'' \<or> fit_key = ''all'' then
        let ((velCx, velCx_err), cl1) = evaluate_fits ev x ''velCx'' cl;
            ((velCy, velCy_err), cl2) = evaluate_fits ev x ''velCy'' cl1;
            velC = [velCx, velCy, 0];
            velC_err = [velCx_err, velCy_err, 0]
        in if fit_key = ''velC'' then (cl2, Inr (Tuple [Array velC, Array velC_err]))
           else (cl2, block_all fit_key m c (Some (velC, velC_err)))
      else (cl, block_all fit_key m c None))"

definition block_chiC ::
  "evaluator \<Rightarrow> string \<Rightarrow> real list \<Rightarrow> (real \<times> real) option
     \<Rightarrow> call_log \<Rightarrow> call_log \<times> (error + pyval)" where
  "block_chiC ev fit_key x m cl =
     (if fit_key = ''chiC'' \<or> fit_key = ''all'' then
        let ((chiCz, chiCz_err), cl1) = evaluate_fits ev x ''chiCz'' cl;
            chiC = [0, 0, chiCz];
            chiC_err = [0, 0, chiCz_err]
        in if fit_key = ''chiC'' then (cl1, Inr (Tuple [Array chiC, Array chiC_err]))
           else block_velC ev fit_key x m (Some (chiC, chiC_err)) cl1
      else block_velC ev fit_key x m None cl)"

definition block_mC ::
  "evaluator \<Rightarrow> string \<Rightarrow> real list \<Rightarrow> call_log \<Rightarrow> call_log \<times> (error + pyval)" where
  "block_mC ev fit_key x cl =
     (if fit_key = ''mC'' \<or> fit_key = ''all'' then
        let ((mC, mC_err), cl1) = evaluate_fits ev x ''mC'' cl
        in if fit_key = ''mC'' then (cl1, Inr (Tuple [Float mC, Float mC_err]))
           else block_chiC ev fit_key x (Some (mC, mC_err)) cl1
      else block_chiC ev fit_key x None cl)"

text \<open>
  What a call of \<open>_eval_wrapper\<close> does: the warnings it emits, the evaluator calls it
  makes, in order, and the value it returns or the exception it raises.
\<close>

record outcome =
  warnings :: "string list"
  calls :: call_log
  result :: "error + pyval"

definition eval_wrapper ::
  "evaluator \<Rightarrow> string \<Rightarrow> real \<Rightarrow> real list \<Rightarrow> real list \<Rightarrow> kwargs \<Rightarrow> outcome" where
  "eval_wrapper ev fit_key q chiA chiB kw =
     (case check_param_limits q chiA chiB kw of
        (ws, Inl e) \<Rightarrow> \<lparr>warnings = ws, calls = [], result = Inl e\<rparr>
      | (ws, Inr _) \<Rightarrow>
          (case check_unused_kwargs kw of
             Inl e \<Rightarrow> \<lparr>warnings = ws, calls = [], result = Inl e\<rparr>
           | Inr _ \<Rightarrow>
               (case getitem chiA 2 of
                  Inl e \<Rightarrow> \<lparr>warnings = ws, calls = [], result = Inl e\<rparr>
                | Inr chiAz \<Rightarrow>
                    (case getitem chiB 2 of
                       Inl e \<Rightarrow> \<lparr>warnings = ws, calls = [], result = Inl e\<rparr>
                     | Inr chiBz \<Rightarrow>
                         let x = [q, chiAz, chiBz];
                             (cl, r) = block_mC ev fit_key x []
                         in \<lparr>warnings = ws, calls = cl, result = r\<rparr>))))"

text \<open>A sample evaluator with a different value and error for each fit key.\<close>

definition mock_ev :: evaluator where
  "mock_ev x k =
     (if k = ''mC'' then (1, 2)
      else if k = ''chiCz'' then (3, 4)
      else if k = ''velCx'' then (5, 6)
      else (7, 8))"

section \<open>Properties\<close>

subsection \<open>Auxiliary facts\<close>

lemma sqrt_gt_iff: "0 \<le> c \<Longrightarrow> (c < sqrt s) = (c\<^sup>2 < s)"
proof -
  assume c: "0 \<le> c"
  then have "sqrt (c\<^sup>2) = c" by simp
  then show ?thesis using real_sqrt_less_iff [of "c\<^sup>2" s] by simp
qed

lemma inplane_tol_iff: "(1 / 10 ^ 10 < sqrt s) = (1 / 10 ^ 20 < s)"
  using sqrt_gt_iff [of "1 / 10 ^ 10" s] by (simp add: power_divide)

subsection \<open>The range validator\<close>

lemma inplane_1e9: "1 / 10 ^ 10 < inplane [1 / 10 ^ 9, 1 / 10 ^ 9, 0.5]"
proof -
  have "1 / 10 ^ 20 < sum_list (map (\<lambda>c. c ^ 2) (take 2 [1 / 10 ^ 9, 1 / 10 ^ 9, 0.5 :: real]))"
    by (simp add: power2_eq_square)
  then show ?thesis unfolding inplane_tol_iff .
qed

text \<open>
  Claim C3. When \<open>chiA\<close> and \<open>chiB\<close> pass the in-plane check, \<open>_check_param_limits\<close>
  raises \<open>ValueError\<close> ("InvalidInput") if \<open>q < 1\<close>, raises \<open>Exception\<close> ("OutOfRange")
  if \<open>q > 10.01\<close>, emits exactly one training-range warning for \<open>q\<close> and does not fail
  on \<open>q\<close> if \<open>8.01 < q \<le> 10.01\<close>, and neither warns nor fails on \<open>q\<close> if
  \<open>1 \<le> q \<le> 8.01\<close>. With \<open>q = 9\<close> and both z-spins within the training range the call
  succeeds with exactly one warning. (The cases \<open>q = 0.5\<close> and \<open>q = 11\<close> are instances
  of the first two parts.)
\<close>

theorem check_param_limits_q:
  assumes "inplane chiA \<le> 1 / 10 ^ 10" and "inplane chiB \<le> 1 / 10 ^ 10"
  shows "(q < 1 \<longrightarrow> check_param_limits q chiA chiB kw = ([], Inl err_q_low))
   \<and> (10.01 < q \<longrightarrow> check_param_limits q chiA chiB kw = ([], Inl err_q_high))
   \<and> (8.01 < q \<and> q \<le> 10.01 \<longrightarrow>
        count_list (fst (check_param_limits q chiA chiB kw)) warn_q = 1
        \<and> snd (check_param_limits q chiA chiB kw) \<noteq> Inl err_q_low
        \<and> snd (check_param_limits q chiA chiB kw) \<noteq> Inl err_q_high)
   \<and> (1 \<le> q \<and> q \<le> 8.01 \<longrightarrow>
        count_list (fst (check_param_limits q chiA chiB kw)) warn_q = 0
        \<and> snd (check_param_limits q chiA chiB kw) \<noteq> Inl err_q_low
        \<and> snd (check_param_limits q chiA chiB kw) \<noteq> Inl err_q_high)
   \<and> (q = 9 \<and> 2 < length chiA \<and> 2 < length chiB
        \<and> \<bar>chiA ! 2\<bar> \<le> 0.81 \<and> \<bar>chiB ! 2\<bar> \<le> 0.81 \<longrightarrow>
        check_param_limits q chiA chiB kw = ([warn_q], Inr ()))"
proof -
  have a: "\<not> 1 / 10 ^ 10 < inplane chiA" and b: "\<not> 1 / 10 ^ 10 < inplane chiB"
    using assms by (simp_all only: not_less)
  show ?thesis
    unfolding check_param_limits_def
    by (simp only: a b if_False)
       (auto simp: getitem_def Let_def split: sum.splits)
qed

theorem check_param_limits_q_witness:
  "inplane [0, 0, 0.5] \<le> 1 / 10 ^ 10 \<and> inplane [0, 0, 0] \<le> 1 / 10 ^ 10
   \<and> check_param_limits 0.5 [0, 0, 0.5] [0, 0, 0] [] = ([], Inl err_q_low)
   \<and> check_param_limits 11 [0, 0, 0.5] [0, 0, 0] [] = ([], Inl err_q_high)
   \<and> check_param_limits 9 [0, 0, 0.5] [0, 0, 0] [] = ([warn_q], Inr ())"
proof -
  have a: "inplane [0, 0, 0.5] \<le> 1 / 10 ^ 10" by simp
  have b: "inplane [0, 0, 0] \<le> 1 / 10 ^ 10" by simp
  show ?thesis
    using a b
      check_param_limits_q [OF a b, where q = "0.5" and kw = "[]"]
      check_param_limits_q [OF a b, where q = 11 and kw = "[]"]
      check_param_limits_q [OF a b, where q = 9 and kw = "[]"]
    by simp
qed

text \<open>
  Claim C4, as amended. For 3-vectors \<open>chiA\<close>, \<open>chiB\<close> that pass the in-plane check and
  \<open>1 \<le> q \<le> 10.01\<close>: the validator raises \<open>Exception\<close> ("OutOfRange") for BhA if
  \<open>|chiA[2]| > 1\<close>, and then the check of \<open>chiB[2]\<close> is not reached (no BhB warning); it
  emits exactly one BhA training-range warning, and does not fail on \<open>chiA[2]\<close>, if
  \<open>0.81 < |chiA[2]| \<le> 1\<close>; it neither warns nor fails on \<open>chiA[2]\<close> if
  \<open>|chiA[2]| \<le> 0.81\<close>. Provided \<open>|chiA[2]| \<le> 1\<close>, the same holds for \<open>chiB[2]\<close>:
  \<open>Exception\<close> for BhB if \<open>|chiB[2]| > 1\<close>, exactly one BhB warning and success if
  \<open>0.81 < |chiB[2]| \<le> 1\<close>, no BhB warning and success if \<open>|chiB[2]| \<le> 0.81\<close>.
\<close>

theorem check_param_limits_spins:
  assumes "inplane [chiAx, chiAy, chiAz] \<le> 1 / 10 ^ 10" and "inplane [chiBx, chiBy, chiBz] \<le> 1 / 10 ^ 10"
    and "1 \<le> q" and "q \<le> 10.01"
    and "r = check_param_limits q [chiAx, chiAy, chiAz] [chiBx, chiBy, chiBz] kw"
  shows "(1 < \<bar>chiAz\<bar> \<longrightarrow> snd r = Inl err_chiA_spin \<and> count_list (fst r) warn_chiB = 0)
   \<and> (0.81 < \<bar>chiAz\<bar> \<and> \<bar>chiAz\<bar> \<le> 1 \<longrightarrow>
        count_list (fst r) warn_chiA = 1 \<and> snd r \<noteq> Inl err_chiA_spin)
   \<and> (\<bar>chiAz\<bar> \<le> 0.81 \<longrightarrow>
        count_list (fst r) warn_chiA = 0 \<and> snd r \<noteq> Inl err_chiA_spin)
   \<and> (\<bar>chiAz\<bar> \<le> 1 \<and> 1 < \<bar>chiBz\<bar> \<longrightarrow> snd r = Inl err_chiB_spin)
   \<and> (\<bar>chiAz\<bar> \<le> 1 \<and> 0.81 < \<bar>chiBz\<bar> \<and> \<bar>chiBz\<bar> \<le> 1 \<longrightarrow>
        count_list (fst r) warn_chiB = 1 \<and> snd r = Inr ())
   \<and> (\<bar>chiAz\<bar> \<le> 1 \<and> \<bar>chiBz\<bar> \<le> 0.81 \<longrightarrow>
        count_list (fst r) warn_chiB = 0 \<and> snd r = Inr ())"
proof -
  have a: "\<not> 1 / 10 ^ 10 < inplane [chiAx, chiAy, chiAz]"
    and b: "\<not> 1 / 10 ^ 10 < inplane [chiBx, chiBy, chiBz]"
    using assms(1,2) by (simp_all only: not_less)
  have c: "\<not> q < 1" and d: "\<not> 10.01 < q" using assms(3,4) by simp_all
  show ?thesis
    unfolding assms(5) check_param_limits_def
    by (simp only: a b c d if_False)
       (auto simp: getitem_def Let_def)
qed

theorem check_param_limits_spins_witness:
  "inplane [0, 0, 0.9] \<le> 1 / 10 ^ 10 \<and> inplane [0, 0, 2] \<le> 1 / 10 ^ 10
   \<and> (1::real) \<le> 1 \<and> (1::real) \<le> 10.01
   \<and> count_list (fst (check_param_limits 1 [0, 0, 0.9] [0, 0, 0.9] [])) warn_chiA = 1
   \<and> count_list (fst (check_param_limits 1 [0, 0, 0.9] [0, 0, 0.9] [])) warn_chiB = 1
   \<and> snd (check_param_limits 1 [0, 0, 0.9] [0, 0, 0.9] []) = Inr ()
   \<and> snd (check_param_limits 1 [0, 0, 0.9] [0, 0, 2] []) = Inl err_chiB_spin
   \<and> snd (check_param_limits 1 [0, 0, 2] [0, 0, 0.9] []) = Inl err_chiA_spin
   \<and> count_list (fst (check_param_limits 1 [0, 0, 2] [0, 0, 0.9] [])) warn_chiB = 0"
proof -
  have a: "inplane [0, 0, 0.9] \<le> 1 / 10 ^ 10" by simp
  have b: "inplane [0, 0, 2] \<le> 1 / 10 ^ 10" by simp
  have c: "(1::real) \<le> 1" by simp
  have d: "(1::real) \<le> 10.01" by simp
  show ?thesis
    using a b c d
      check_param_limits_spins [OF a a c d refl, where kw = "[]"]
      check_param_limits_spins [OF a b c d refl, where kw = "[]"]
      check_param_limits_spins [OF b a c d refl, where kw = "[]"]
    by simp
qed

text \<open>
  The claim C4 as first stated promises, for every input that passes the in-plane and
  \<open>q\<close> checks, a warning for \<open>chiB[2]\<close> whenever \<open>0.81 < |chiB[2]| \<le> 1\<close>. With
  \<open>chiA = [0, 0, 2]\<close> and \<open>chiB = [0, 0, 0.9]\<close> the call fails on \<open>chiA[2]\<close> before
  \<open>chiB[2]\<close> is looked at, and no warning is emitted.
\<close>

theorem spin_checks_counterexample:
  "check_param_limits 1 [0, 0, 2] [0, 0, 0.9] [] = ([], Inl err_chiA_spin)
   \<and> warn_chiB \<notin> set (fst (check_param_limits 1 [0, 0, 2] [0, 0, 0.9] []))"
  by (simp add: check_param_limits_def getitem_def)

text \<open>
  Claim C5. The aligned-spin precondition fails with \<open>ValueError\<close> ("InvalidInput")
  exactly when the in-plane magnitude \<open>sqrt (x^2 + y^2)\<close> of \<open>chiA\<close>, or else that of
  \<open>chiB\<close>, is strictly greater than \<open>1e-10\<close>: the error is the one for \<open>chiA\<close> iff the
  magnitude of \<open>chiA\<close> exceeds the threshold, and the one for \<open>chiB\<close> iff that of \<open>chiA\<close>
  does not and that of \<open>chiB\<close> does. A magnitude of exactly \<open>1e-10\<close> passes, and
  \<open>chiA = [0.1, 0, 0.5]\<close> fails.
\<close>

theorem check_param_limits_inplane:
  "(snd (check_param_limits q chiA chiB kw) = Inl err_chiA_inplane)
      = (1 / 10 ^ 10 < inplane chiA)
   \<and> (snd (check_param_limits q chiA chiB kw) = Inl err_chiB_inplane)
      = (inplane chiA \<le> 1 / 10 ^ 10 \<and> 1 / 10 ^ 10 < inplane chiB)
   \<and> snd (check_param_limits q [1 / 10 ^ 10, 0, chiAz] chiB kw) \<noteq> Inl err_chiA_inplane
   \<and> check_param_limits q [0.1, 0, 0.5] chiB kw = ([], Inl err_chiA_inplane)"
proof (intro conjI)
  show "(snd (check_param_limits q chiA chiB kw) = Inl err_chiA_inplane)
      = (1 / 10 ^ 10 < inplane chiA)"
    unfolding check_param_limits_def
    by (auto simp: getitem_def Let_def split: sum.splits)
  show "(snd (check_param_limits q chiA chiB kw) = Inl err_chiB_inplane)
      = (inplane chiA \<le> 1 / 10 ^ 10 \<and> 1 / 10 ^ 10 < inplane chiB)"
    unfolding check_param_limits_def
    by (auto simp: getitem_def Let_def split: sum.splits)
  show "snd (check_param_limits q [1 / 10 ^ 10, 0, chiAz] chiB kw) \<noteq> Inl err_chiA_inplane"
    unfolding check_param_limits_def
    by (auto simp: getitem_def Let_def split: sum.splits)
  show "check_param_limits q [0.1, 0, 0.5] chiB kw = ([], Inl err_chiA_inplane)"
    by (simp add: check_param_limits_def)
qed

theorem check_param_limits_inplane_witness:
  "1 / 10 ^ 10 < inplane [0.1, 0, 0.5]
   \<and> snd (check_param_limits 1 [0.1, 0, 0.5] [0, 0, 0] []) = Inl err_chiA_inplane
   \<and> inplane [0, 0, 0.5] \<le> 1 / 10 ^ 10 \<and> 1 / 10 ^ 10 < inplane [0, 0.1, 0]
   \<and> snd (check_param_limits 1 [0, 0, 0.5] [0, 0.1, 0] []) = Inl err_chiB_inplane"
proof -
  have a: "1 / 10 ^ 10 < inplane [0.1, 0, 0.5]" by simp
  have b: "inplane [0, 0, 0.5] \<le> 1 / 10 ^ 10" by simp
  have c: "1 / 10 ^ 10 < inplane [0, 0.1, 0]" by simp
  show ?thesis
    using a b c
      check_param_limits_inplane [where q = 1 and chiA = "[0.1, 0, 0.5]"
        and chiB = "[0, 0, 0]" and kw = "[]"]
      check_param_limits_inplane [where q = 1 and chiA = "[0, 0, 0.5]"
        and chiB = "[0, 0.1, 0]" and kw = "[]"]
    by simp
qed

text \<open>
  Claim C6, as amended. For \<open>chiA = [1e-9, 1e-9, 0.5]\<close> the in-plane magnitude
  \<open>sqrt 2 * 1e-9\<close> is greater than the threshold \<open>1e-10\<close>, and the validator fails the
  in-plane check: it raises \<open>ValueError\<close> ("InvalidInput") for the in-plane components
  of \<open>chiA\<close>, for every \<open>q\<close> and every \<open>chiB\<close>.
\<close>

theorem inplane_1e9_rejected:
  "1 / 10 ^ 10 < inplane [1 / 10 ^ 9, 1 / 10 ^ 9, 0.5]
   \<and> check_param_limits q [1 / 10 ^ 9, 1 / 10 ^ 9, 0.5] chiB kw = ([], Inl err_chiA_inplane)"
  unfolding check_param_limits_def by (simp only: inplane_1e9 if_True simp_thms)

text \<open>
  The claim C6 as first stated says that \<open>chiA = [1e-9, 1e-9, 0.5]\<close> passes the in-plane
  check when \<open>q\<close> is in the valid range and \<open>chiB\<close> is exactly aligned. At \<open>q = 1\<close>,
  \<open>chiB = [0, 0, 0]\<close> the validator raises the in-plane \<open>ValueError\<close> for \<open>chiA\<close>.
\<close>

theorem inplane_1e9_counterexample:
  "snd (check_param_limits 1 [1 / 10 ^ 9, 1 / 10 ^ 9, 0.5] [0, 0, 0] []) = Inl err_chiA_inplane"
  unfolding check_param_limits_def by (simp only: inplane_1e9 if_True snd_conv)

text \<open>
  Claim C9. The first hard violation determines the exception, the checks being made in
  the order: \<open>chiA\<close> in-plane, \<open>chiB\<close> in-plane, \<open>q\<close> range, \<open>chiA\<close> z-spin, \<open>chiB\<close>
  z-spin. Each part below fixes that the earlier checks pass and the named check is
  violated, and leaves the later inputs free. The groups for \<open>q\<close>, \<open>chiA[2]\<close> and
  \<open>chiB[2]\<close> do not cut one another short: with \<open>8.01 < q \<le> 10.01\<close> and both
  \<open>|chiA[2]|\<close> and \<open>|chiB[2]|\<close> in \<open>(0.81, 1]\<close> the call emits three warnings, in
  this order, and succeeds.
\<close>

theorem check_param_limits_order:
  "(1 / 10 ^ 10 < inplane [chiAx, chiAy, chiAz] \<longrightarrow>
      check_param_limits q [chiAx, chiAy, chiAz] [chiBx, chiBy, chiBz] kw = ([], Inl err_chiA_inplane))
   \<and> (inplane [chiAx, chiAy, chiAz] \<le> 1 / 10 ^ 10 \<and> 1 / 10 ^ 10 < inplane [chiBx, chiBy, chiBz] \<longrightarrow>
      check_param_limits q [chiAx, chiAy, chiAz] [chiBx, chiBy, chiBz] kw = ([], Inl err_chiB_inplane))
   \<and> (inplane [chiAx, chiAy, chiAz] \<le> 1 / 10 ^ 10 \<and> inplane [chiBx, chiBy, chiBz] \<le> 1 / 10 ^ 10
        \<and> q < 1 \<longrightarrow>
      check_param_limits q [chiAx, chiAy, chiAz] [chiBx, chiBy, chiBz] kw = ([], Inl err_q_low))
   \<and> (inplane [chiAx, chiAy, chiAz] \<le> 1 / 10 ^ 10 \<and> inplane [chiBx, chiBy, chiBz] \<le> 1 / 10 ^ 10
        \<and> 10.01 < q \<longrightarrow>
      check_param_limits q [chiAx, chiAy, chiAz] [chiBx, chiBy, chiBz] kw = ([], Inl err_q_high))
   \<and> (inplane [chiAx, chiAy, chiAz] \<le> 1 / 10 ^ 10 \<and> inplane [chiBx, chiBy, chiBz] \<le> 1 / 10 ^ 10
        \<and> 1 \<le> q \<and> q \<le> 10.01 \<and> 1 < \<bar>chiAz\<bar> \<longrightarrow>
      snd (check_param_limits q [chiAx, chiAy, chiAz] [chiBx, chiBy, chiBz] kw) = Inl err_chiA_spin)
   \<and> (inplane [chiAx, chiAy, chiAz] \<le> 1 / 10 ^ 10 \<and> inplane [chiBx, chiBy, chiBz] \<le> 1 / 10 ^ 10
        \<and> 1 \<le> q \<and> q \<le> 10.01 \<and> \<bar>chiAz\<bar> \<le> 1 \<and> 1 < \<bar>chiBz\<bar> \<longrightarrow>
      snd (check_param_limits q [chiAx, chiAy, chiAz] [chiBx, chiBy, chiBz] kw) = Inl err_chiB_spin)
   \<and> (inplane [chiAx, chiAy, chiAz] \<le> 1 / 10 ^ 10 \<and> inplane [chiBx, chiBy, chiBz] \<le> 1 / 10 ^ 10
        \<and> 8.01 < q \<and> q \<le> 10.01 \<and> 0.81 < \<bar>chiAz\<bar> \<and> \<bar>chiAz\<bar> \<le> 1
        \<and> 0.81 < \<bar>chiBz\<bar> \<and> \<bar>chiBz\<bar> \<le> 1 \<longrightarrow>
      check_param_limits q [chiAx, chiAy, chiAz] [chiBx, chiBy, chiBz] kw
        = ([warn_q, warn_chiA, warn_chiB], Inr ()))"
  unfolding check_param_limits_def
  by (auto simp: getitem_def Let_def)

theorem check_param_limits_order_witness:
  "1 / 10 ^ 10 < inplane [0.1, 0, 2]
   \<and> check_param_limits 0.5 [0.1, 0, 2] [0.1, 0, 2] [] = ([], Inl err_chiA_inplane)
   \<and> inplane [0, 0, 2] \<le> 1 / 10 ^ 10
   \<and> check_param_limits 0.5 [0, 0, 2] [0.1, 0, 2] [] = ([], Inl err_chiB_inplane)
   \<and> check_param_limits 11 [0, 0, 2] [0, 0, 2] [] = ([], Inl err_q_high)
   \<and> snd (check_param_limits 9 [0, 0, 2] [0, 0, 2] []) = Inl err_chiA_spin
   \<and> inplane [0, 0, 0.9] \<le> 1 / 10 ^ 10 \<and> inplane [0, 0, - 0.9] \<le> 1 / 10 ^ 10
   \<and> snd (check_param_limits 9 [0, 0, 0.9] [0, 0, 2] []) = Inl err_chiB_spin
   \<and> check_param_limits 9 [0, 0, 0.9] [0, 0, - 0.9] []
       = ([warn_q, warn_chiA, warn_chiB], Inr ())"
proof -
  have a: "1 / 10 ^ 10 < inplane [0.1, 0, 2]" by simp
  have b: "inplane [0, 0, 2] \<le> 1 / 10 ^ 10" by simp
  have c: "inplane [0, 0, 0.9] \<le> 1 / 10 ^ 10" by simp
  have d: "inplane [0, 0, - 0.9] \<le> 1 / 10 ^ 10" by simp
  show ?thesis
    using a b c d
      check_param_limits_order [where q = "0.5" and chiAx = "0.1" and chiAy = 0 and chiAz = 2
        and chiBx = "0.1" and chiBy = 0 and chiBz = 2 and kw = "[]"]
      check_param_limits_order [where q = "0.5" and chiAx = 0 and chiAy = 0 and chiAz = 2
        and chiBx = "0.1" and chiBy = 0 and chiBz = 2 and kw = "[]"]
      check_param_limits_order [where q = 11 and chiAx = 0 and chiAy = 0 and chiAz = 2
        and chiBx = 0 and chiBy = 0 and chiBz = 2 and kw = "[]"]
      check_param_limits_order [where q = 9 and chiAx = 0 and chiAy = 0 and chiAz = 2
        and chiBx = 0 and chiBy = 0 and chiBz = 2 and kw = "[]"]
      check_param_limits_order [where q = 9 and chiAx = 0 and chiAy = 0 and chiAz = "0.9"
        and chiBx = 0 and chiBy = 0 and chiBz = 2 and kw = "[]"]
      check_param_limits_order [where q = 9 and chiAx = 0 and chiAy = 0 and chiAz = "0.9"
        and chiBx = 0 and chiBy = 0 and chiBz = "- 0.9" and kw = "[]"]
    by simp
qed

subsection \<open>The dispatcher\<close>

lemma check_param_limits_ok_length:
  assumes "check_param_limits q chiA chiB kw = (ws, Inr ())"
  shows "2 < length chiA \<and> 2 < length chiB"
  using assms
  by (simp add: check_param_limits_def getitem_def Let_def split: if_splits)

lemma eval_wrapper_valid:
  assumes "check_param_limits q chiA chiB kw = (ws, Inr ())"
    and "check_unused_kwargs kw = Inr ()"
  shows "eval_wrapper ev fit_key q chiA chiB kw =
           \<lparr>warnings = ws,
            calls = fst (block_mC ev fit_key [q, chiA ! 2, chiB ! 2] []),
            result = snd (block_mC ev fit_key [q, chiA ! 2, chiB ! 2] [])\<rparr>"
  using assms check_param_limits_ok_length [OF assms(1)]
  by (simp add: eval_wrapper_def getitem_def Let_def split_beta)

text \<open>
  Claim C2. When validation and the keyword check pass, \<open>_eval_wrapper\<close> with the fit key
  \<open>'all'\<close> calls the evaluator exactly four times, for \<open>'mC'\<close>, \<open>'chiCz'\<close>, \<open>'velCx'\<close>
  and \<open>'velCy'\<close>, and returns the 6-tuple
  \<open>(mC, chiC, velC, mC_err, chiC_err, velC_err)\<close> in this order, where the spin and the
  spin error have zero x and y components and the kick and the kick error have a zero
  z component, whatever the evaluator returns.
\<close>

theorem eval_wrapper_all:
  assumes "check_param_limits q chiA chiB kw = (ws, Inr ())"
    and "check_unused_kwargs kw = Inr ()"
    and "x = [q, chiA ! 2, chiB ! 2]"
  shows "eval_wrapper ev ''all'' q chiA chiB kw =
           \<lparr>warnings = ws,
            calls = [(x, ''mC''), (x, ''chiCz''), (x, ''velCx''), (x, ''velCy'')],
            result = Inr (Tuple
              [Float (fst (ev x ''mC'')),
               Array [0, 0, fst (ev x ''chiCz'')],
               Array [fst (ev x ''velCx''), fst (ev x ''velCy''), 0],
               Float (snd (ev x ''mC'')),
               Array [0, 0, snd (ev x ''chiCz'')],
               Array [snd (ev x ''velCx''), snd (ev x ''velCy''), 0]])\<rparr>"
  unfolding eval_wrapper_valid [OF assms(1,2)] assms(3)
  by (simp add: block_mC_def block_chiC_def block_velC_def block_all_def
      evaluate_fits_def Let_def split_beta)

theorem eval_wrapper_all_witness:
  "check_param_limits 4.3 [0, 0, 0.6] [0, 0, - 0.7] [] = ([], Inr ())
   \<and> check_unused_kwargs [] = Inr ()
   \<and> eval_wrapper mock_ev ''all'' 4.3 [0, 0, 0.6] [0, 0, - 0.7] [] =
       \<lparr>warnings = [],
        calls = [([4.3, 0.6, - 0.7], ''mC''), ([4.3, 0.6, - 0.7], ''chiCz''),
                 ([4.3, 0.6, - 0.7], ''velCx''), ([4.3, 0.6, - 0.7], ''velCy'')],
        result = Inr (Tuple [Float 1, Array [0, 0, 3], Array [5, 7, 0],
                             Float 2, Array [0, 0, 4], Array [6, 8, 0]])\<rparr>"
proof -
  have v: "check_param_limits 4.3 [0, 0, 0.6] [0, 0, - 0.7] [] = ([], Inr ())"
    by (simp add: check_param_limits_def getitem_def)
  have k: "check_unused_kwargs [] = Inr ()"
    by (simp add: check_unused_kwargs_def)
  show ?thesis
    using v k eval_wrapper_all [OF v k refl, of mock_ev]
    by (simp add: mock_ev_def)
qed

text \<open>
  Claim C7. When validation and the keyword check pass: the fit key \<open>'mC'\<close> makes one
  evaluator call (\<open>'mC'\<close>) and returns the pair \<open>(mC, mC_err)\<close>; the fit key \<open>'chiC'\<close>
  makes one evaluator call (\<open>'chiCz'\<close>) and returns \<open>((0, 0, chiCz), (0, 0, chiCz_err))\<close>;
  the fit key \<open>'velC'\<close> makes two evaluator calls (\<open>'velCx'\<close>, then \<open>'velCy'\<close>) and
  returns \<open>((velCx, velCy, 0), (velCx_err, velCy_err, 0))\<close>. The zero components do not
  depend on the evaluator.
\<close>

theorem eval_wrapper_single:
  assumes "check_param_limits q chiA chiB kw = (ws, Inr ())"
    and "check_unused_kwargs kw = Inr ()"
    and "x = [q, chiA ! 2, chiB ! 2]"
  shows "eval_wrapper ev ''mC'' q chiA chiB kw =
           \<lparr>warnings = ws, calls = [(x, ''mC'')],
            result = Inr (Tuple [Float (fst (ev x ''mC'')), Float (snd (ev x ''mC''))])\<rparr>
       \<and> eval_wrapper ev ''chiC'' q chiA chiB kw =
           \<lparr>warnings = ws, calls = [(x, ''chiCz'')],
            result = Inr (Tuple [Array [0, 0, fst (ev x ''chiCz'')],
                                 Array [0, 0, snd (ev x ''chiCz'')]])\<rparr>
       \<and> eval_wrapper ev ''velC'' q chiA chiB kw =
           \<lparr>warnings = ws, calls = [(x, ''velCx''), (x, ''velCy'')],
            result = Inr (Tuple [Array [fst (ev x ''velCx''), fst (ev x ''velCy''), 0],
                                 Array [snd (ev x ''velCx''), snd (ev x ''velCy''), 0]])\<rparr>"
  unfolding eval_wrapper_valid [OF assms(1,2)] assms(3)
  by (simp add: block_mC_def block_chiC_def block_velC_def block_all_def
      evaluate_fits_def Let_def split_beta)

theorem eval_wrapper_single_witness:
  "check_param_limits 4.3 [0, 0, 0.6] [0, 0, - 0.7] [] = ([], Inr ())
   \<and> check_unused_kwargs [] = Inr ()
   \<and> eval_wrapper mock_ev ''mC'' 4.3 [0, 0, 0.6] [0, 0, - 0.7] [] =
       \<lparr>warnings = [], calls = [([4.3, 0.6, - 0.7], ''mC'')],
        result = Inr (Tuple [Float 1, Float 2])\<rparr>
   \<and> eval_wrapper mock_ev ''chiC'' 4.3 [0, 0, 0.6] [0, 0, - 0.7] [] =
       \<lparr>warnings = [], calls = [([4.3, 0.6, - 0.7], ''chiCz'')],
        result = Inr (Tuple [Array [0, 0, 3], Array [0, 0, 4]])\<rparr>
   \<and> eval_wrapper mock_ev ''velC'' 4.3 [0, 0, 0.6] [0, 0, - 0.7] [] =
       \<lparr>warnings = [],
        calls = [([4.3, 0.6, - 0.7], ''velCx''), ([4.3, 0.6, - 0.7], ''velCy'')],
        result = Inr (Tuple [Array [5, 7, 0], Array [6, 8, 0]])\<rparr>"
proof -
  have v: "check_param_limits 4.3 [0, 0, 0.6] [0, 0, - 0.7] [] = ([], Inr ())"
    by (simp add: check_param_limits_def getitem_def)
  have k: "check_unused_kwargs [] = Inr ()"
    by (simp add: check_unused_kwargs_def)
  show ?thesis
    using v k eval_wrapper_single [OF v k refl, of mock_ev]
    by (simp add: mock_ev_def)
qed

text \<open>
  Claim C8. A call of \<open>_eval_wrapper\<close> whose inputs fail range validation, or which
  passes a keyword option, raises before any evaluator call: the call log is empty and
  the result is the exception. Range validation runs first: when it fails, its exception
  is the one raised, whatever the keyword options are; the keyword check raises only
  once validation has passed.
\<close>

theorem eval_wrapper_fails_early:
  "(snd (check_param_limits q chiA chiB kw) = Inl e \<longrightarrow>
      eval_wrapper ev fit_key q chiA chiB kw =
        \<lparr>warnings = fst (check_param_limits q chiA chiB kw), calls = [],
         result = Inl e\<rparr>)
   \<and> (snd (check_param_limits q chiA chiB kw) = Inr () \<and> kw \<noteq> [] \<longrightarrow>
      eval_wrapper ev fit_key q chiA chiB kw =
        \<lparr>warnings = fst (check_param_limits q chiA chiB kw), calls = [],
         result = Inl (UnsupportedOption (map fst kw))\<rparr>)"
  by (cases "check_param_limits q chiA chiB kw")
     (simp add: eval_wrapper_def check_unused_kwargs_def)

theorem eval_wrapper_fails_early_witness:
  "snd (check_param_limits 11 [0, 0, 0.6] [0, 0, - 0.7] [(''foo'', PyNone)]) = Inl err_q_high
   \<and> eval_wrapper mock_ev ''all'' 11 [0, 0, 0.6] [0, 0, - 0.7] [(''foo'', PyNone)] =
       \<lparr>warnings = [], calls = [], result = Inl err_q_high\<rparr>
   \<and> snd (check_param_limits 4.3 [0, 0, 0.6] [0, 0, - 0.7] [(''foo'', PyNone)]) = Inr ()
   \<and> eval_wrapper mock_ev ''all'' 4.3 [0, 0, 0.6] [0, 0, - 0.7] [(''foo'', PyNone)] =
       \<lparr>warnings = [], calls = [], result = Inl (UnsupportedOption [''foo''])\<rparr>"
proof -
  have a: "check_param_limits 11 [0, 0, 0.6] [0, 0, - 0.7] [(''foo'', PyNone)]
             = ([], Inl err_q_high)"
    by (simp add: check_param_limits_def getitem_def)
  have b: "check_param_limits 4.3 [0, 0, 0.6] [0, 0, - 0.7] [(''foo'', PyNone)]
             = ([], Inr ())"
    by (simp add: check_param_limits_def getitem_def)
  show ?thesis
    using a b
      eval_wrapper_fails_early [where q = 11 and chiA = "[0, 0, 0.6]"
        and chiB = "[0, 0, - 0.7]" and kw = "[(''foo'', PyNone)]"
        and e = err_q_high and ev = mock_ev and fit_key = "''all''"]
      eval_wrapper_fails_early [where q = "4.3" and chiA = "[0, 0, 0.6]"
        and chiB = "[0, 0, - 0.7]" and kw = "[(''foo'', PyNone)]"
        and e = err_q_high and ev = mock_ev and fit_key = "''all''"]
    by simp
qed

text \<open>
  Claim C10. With a fit key other than \<open>'mC'\<close>, \<open>'chiC'\<close>, \<open>'velC'\<close> and \<open>'all'\<close>, once
  validation and the keyword check have passed, \<open>_eval_wrapper\<close> enters no branch: it
  makes no evaluator call and returns \<open>None\<close>; it raises nothing.
\<close>

theorem eval_wrapper_unknown_key:
  assumes "fit_key \<notin> {''mC'', ''chiC'', ''velC'', ''all''}"
    and "check_param_limits q chiA chiB kw = (ws, Inr ())"
    and "check_unused_kwargs kw = Inr ()"
  shows "eval_wrapper ev fit_key q chiA chiB kw =
           \<lparr>warnings = ws, calls = [], result = Inr PyNone\<rparr>"
  unfolding eval_wrapper_valid [OF assms(2,3)]
  using assms(1)
  by (simp add: block_mC_def block_chiC_def block_velC_def block_all_def)

theorem eval_wrapper_unknown_key_witness:
  "''mass'' \<notin> {''mC'', ''chiC'', ''velC'', ''all''}
   \<and> check_param_limits 4.3 [0, 0, 0.6] [0, 0, - 0.7] [] = ([], Inr ())
   \<and> check_unused_kwargs [] = Inr ()
   \<and> eval_wrapper mock_ev ''mass'' 4.3 [0, 0, 0.6] [0, 0, - 0.7] [] =
       \<lparr>warnings = [], calls = [], result = Inr PyNone\<rparr>"
proof -
  have n: "''mass'' \<notin> {''mC'', ''chiC'', ''velC'', ''all''}" by simp
  have v: "check_param_limits 4.3 [0, 0, 0.6] [0, 0, - 0.7] [] = ([], Inr ())"
    by (simp add: check_param_limits_def getitem_def)
  have k: "check_unused_kwargs [] = Inr ()"
    by (simp add: check_unused_kwargs_def)
  show ?thesis
    using n v k eval_wrapper_unknown_key [OF n v k, of mock_ev]
    by simp
qed

end
